theory Spec2Isabelle
  imports Complex_Main "HOL-Library.AList"
begin

section \<open>Data model\<close>

text \<open>
  The enum \<^verbatim>\<open>TransactionStatus\<close> of \<^verbatim>\<open>types/payment.ts\<close>, in the order of
  its declaration.
\<close>

datatype TransactionStatus =
  INITIATED | PENDING | ON_RAMPING | CONVERTING | TRANSFERRING | OFF_RAMPING | COMPLETED | FAILED

text \<open>
  \<^verbatim>\<open>StateTransition\<close> and \<^verbatim>\<open>TransactionState\<close> of the TransactionManager. The
  fields \<^verbatim>\<open>from\<close>, \<^verbatim>\<open>to\<close>, \<^verbatim>\<open>id\<close> and \<^verbatim>\<open>error\<close> are \<open>from_status\<close>,
  \<open>to_status\<close>, \<open>tx_id\<close> and \<open>error_text\<close>, since the plain names are taken. A \<^verbatim>\<open>Date\<close> is its \<^verbatim>\<open>getTime()\<close>, milliseconds as an
  integer; an optional field is an \<open>option\<close>. \<^verbatim>\<open>retryCount\<close> starts at 0 and is only
  ever incremented, so it is a natural number, and so is the bound \<^verbatim>\<open>maxRetries\<close> it
  is compared with. The values of \<^verbatim>\<open>metadata\<close> (\<^verbatim>\<open>any\<close>) are kept as strings.
\<close>

record StateTransition =
  from_status :: TransactionStatus
  to_status :: TransactionStatus
  timestamp :: int
  reason :: "string option"
  error_text :: "string option"

record TransactionState =
  tx_id :: string
  currentStatus :: TransactionStatus
  previousStatus :: "TransactionStatus option"
  transitions :: "StateTransition list"
  retryCount :: nat
  maxRetries :: nat
  lastError :: "string option"
  metadata :: "(string \<times> string) list"

text \<open>
  \<^verbatim>\<open>RetryConfig\<close>. The delay and the multiplier are JavaScript numbers; they are
  modelled as reals, so the rounding of doubles is not part of the model.
\<close>

record RetryConfig =
  cfg_maxRetries :: nat
  retryableStatuses :: "TransactionStatus list"
  retryDelayMs :: real
  backoffMultiplier :: real

text \<open>
  The TransactionManager object together with the part of the world it acts on.
  \<^item> \<open>states\<close> is the \<^verbatim>\<open>Map<string, TransactionState>\<close>, as an association list
    in insertion order: \<^verbatim>\<open>Map.set\<close> is \<open>AList.update\<close> (an existing key keeps its
    place, a new one goes to the end), \<^verbatim>\<open>Map.delete\<close> is \<open>AList.delete\<close>, and
    \<^verbatim>\<open>Map.get\<close> is \<open>map_of\<close>. The state objects are mutated in place by the
    source; here the entry of the map is replaced by the mutated record.
  \<^item> \<open>statusCallbacks\<close> are the registered observers, each known by a number.
  \<^item> \<open>localStorage\<close> is the item stored under \<^verbatim>\<open>storageKey\<close>: \<open>None\<close> when there
    is none, else the serialised list of states.
  \<^item> \<open>callbackLog\<close> records every call of an observer, in order, with its arguments.
  \<^item> \<open>timerLog\<close> records every delay the manager has waited for, in order.
\<close>

record TransactionManager =
  states :: "(string \<times> TransactionState) list"
  statusCallbacks :: "nat list"
  retryConfig :: RetryConfig
  localStorage :: "TransactionState list option"
  callbackLog :: "(nat \<times> string \<times> TransactionStatus \<times> TransactionStatus) list"
  timerLog :: "real list"


record FeeEstimate =
  onRampFee :: real
  blockchainFee :: real
  offRampFee :: real
  totalFee :: real
  estimatedTime :: real

record Transaction =
  id_tx :: string
  timestamp_tx :: int
  amount_tx :: real
  currency_tx :: string
  recipient_tx :: string
  status_tx :: TransactionStatus
  fees_tx :: FeeEstimate
  txHash_tx :: "string option"

record StoredTransaction =
  id_st :: string
  createdAt :: int
  updatedAt :: int
  amount_st :: real
  currency_st :: string
  recipient_st :: string
  recipientENS_st :: "string option"
  status_st :: TransactionStatus
  fees_st :: FeeEstimate
  txHash_st :: "string option"
  fernOnRampId :: "string option"
  fernOffRampId :: "string option"
  paymentContractId :: "string option"

text \<open>
  What the source throws: an \<^verbatim>\<open>Error\<close> with its message, or the \<^verbatim>\<open>TypeError\<close> of
  the runtime on reading a property of \<^verbatim>\<open>undefined\<close>.
\<close>

datatype js_error = Error string | TypeError



section \<open>TransactionManager\<close>

text \<open>The default configuration of the constructor.\<close>

definition defaultRetryConfig :: RetryConfig where
  "defaultRetryConfig =
     \<lparr>cfg_maxRetries = 3, retryableStatuses = [FAILED, PENDING],
      retryDelayMs = 5000, backoffMultiplier = 2\<rparr>"

text \<open>
  \<^verbatim>\<open>saveStatesToStorage\<close> writes the values of the map, in order, under the storage
  key. \<^verbatim>\<open>loadStatesFromStorage\<close> sets every stored state under its own id; nothing
  stored leaves the map empty.
\<close>

definition saveStatesToStorage :: "TransactionManager \<Rightarrow> TransactionManager" where
  "saveStatesToStorage m = m\<lparr>localStorage := Some (map snd (states m))\<rparr>"

fun loadStates ::
  "TransactionState list \<Rightarrow> (string \<times> TransactionState) list \<Rightarrow> (string \<times> TransactionState) list"
where
  "loadStates [] acc = acc"
| "loadStates (s # ss) acc = loadStates ss (AList.update (tx_id s) s acc)"

definition loadStatesFromStorage :: "TransactionManager \<Rightarrow> TransactionManager" where
  "loadStatesFromStorage m =
     (case localStorage m of
        None \<Rightarrow> m
      | Some stored \<Rightarrow> m\<lparr>states := loadStates stored (states m)\<rparr>)"

text \<open>
  The constructor, given the configuration after the defaults are merged in and the
  item found in the storage.
\<close>

definition newTransactionManager ::
  "RetryConfig \<Rightarrow> TransactionState list option \<Rightarrow> TransactionManager" where
  "newTransactionManager cfg stored =
     loadStatesFromStorage
       \<lparr>states = [], statusCallbacks = [], retryConfig = cfg, localStorage = stored,
        callbackLog = [], timerLog = []\<rparr>"

text \<open>
  \<^verbatim>\<open>isValidTransition\<close>: the table \<^verbatim>\<open>validTransitions\<close> and the membership test
  \<^verbatim>\<open>includes\<close>. Every status has an entry, so the fallback \<^verbatim>\<open>|| []\<close> is never
  taken.
\<close>

fun validTransitions :: "TransactionStatus \<Rightarrow> TransactionStatus list" where
  "validTransitions INITIATED = [PENDING, FAILED]"
| "validTransitions PENDING = [ON_RAMPING, FAILED]"
| "validTransitions ON_RAMPING = [CONVERTING, FAILED]"
| "validTransitions CONVERTING = [TRANSFERRING, FAILED]"
| "validTransitions TRANSFERRING = [OFF_RAMPING, FAILED]"
| "validTransitions OFF_RAMPING = [COMPLETED, FAILED]"
| "validTransitions COMPLETED = []"
| "validTransitions FAILED = [PENDING]"

definition isValidTransition :: "TransactionStatus \<Rightarrow> TransactionStatus \<Rightarrow> bool" where
  "isValidTransition from to = (to \<in> set (validTransitions from))"

text \<open>
  \<^verbatim>\<open>notifyStatusChange\<close> calls every observer in the order of registration; what an
  observer throws is caught. Observers are taken not to call back into the manager.
\<close>

definition notifyStatusChange ::
  "TransactionManager \<Rightarrow> string \<Rightarrow> TransactionStatus \<Rightarrow> TransactionStatus \<Rightarrow> TransactionManager"
where
  "notifyStatusChange m transactionId oldStatus newStatus =
     m\<lparr>callbackLog := callbackLog m @
          map (\<lambda>cb. (cb, transactionId, oldStatus, newStatus)) (statusCallbacks m)\<rparr>"

text \<open>
  \<^verbatim>\<open>initializeTransaction\<close>. The clock read by \<^verbatim>\<open>new Date()\<close> is the argument
  \<open>now\<close>; the default of \<open>initialStatus\<close> is \<open>INITIATED\<close>.
\<close>

definition initializeTransaction ::
  "TransactionManager \<Rightarrow> string \<Rightarrow> TransactionStatus \<Rightarrow> int
     \<Rightarrow> TransactionState \<times> TransactionManager" where
  "initializeTransaction m transactionId initialStatus now =
     (let state =
        \<lparr>tx_id = transactionId, currentStatus = initialStatus, previousStatus = None,
         transitions =
           [\<lparr>from_status = INITIATED, to_status = initialStatus, timestamp = now,
             reason = Some ''Transaction initialized'', error_text = None\<rparr>],
         retryCount = 0, maxRetries = cfg_maxRetries (retryConfig m),
         lastError = None, metadata = []\<rparr>
      in (state, saveStatesToStorage (m\<lparr>states := AList.update transactionId state (states m)\<rparr>)))"

text \<open>
  \<^verbatim>\<open>transitionTo\<close>. The result pairs what the call returns or throws with the
  manager afterwards.
\<close>

definition transitionTo ::
  "TransactionManager \<Rightarrow> string \<Rightarrow> TransactionStatus \<Rightarrow> string option \<Rightarrow> int
     \<Rightarrow> (js_error + bool) \<times> TransactionManager" where
  "transitionTo m transactionId newStatus rsn now =
     (case map_of (states m) transactionId of
        None \<Rightarrow> (Inl (Error (''Transaction state not found: '' @ transactionId)), m)
      | Some state \<Rightarrow>
          if \<not> isValidTransition (currentStatus state) newStatus then (Inr False, m)
          else
            let oldStatus = currentStatus state;
                state' = state\<lparr>previousStatus := Some (currentStatus state),
                               currentStatus := newStatus,
                               transitions := transitions state @
                                 [\<lparr>from_status = oldStatus, to_status = newStatus,
                                   timestamp = now, reason = rsn, error_text = None\<rparr>]\<rparr>;
                m1 = m\<lparr>states := AList.update transactionId state' (states m)\<rparr>
            in (Inr True, notifyStatusChange (saveStatesToStorage m1) transactionId oldStatus newStatus))"

text \<open>\<^verbatim>\<open>a || b\<close> on an optional string: the empty string is falsy as well.\<close>

definition or_default :: "string option \<Rightarrow> string \<Rightarrow> string" where
  "or_default a b = (case a of None \<Rightarrow> b | Some s \<Rightarrow> if s = [] then b else s)"

text \<open>\<^verbatim>\<open>markAsFailed\<close>.\<close>

definition markAsFailed ::
  "TransactionManager \<Rightarrow> string \<Rightarrow> string \<Rightarrow> string option \<Rightarrow> int
     \<Rightarrow> (js_error + unit) \<times> TransactionManager" where
  "markAsFailed m transactionId err rsn now =
     (case map_of (states m) transactionId of
        None \<Rightarrow> (Inl (Error (''Transaction state not found: '' @ transactionId)), m)
      | Some state \<Rightarrow>
          let transition =
                \<lparr>from_status = currentStatus state, to_status = FAILED, timestamp = now,
                 reason = Some (or_default rsn ''Transaction failed''),
                 error_text = Some err\<rparr>;
              state' = state\<lparr>lastError := Some err,
                             previousStatus := Some (currentStatus state),
                             currentStatus := FAILED,
                             transitions := transitions state @ [transition]\<rparr>;
              m1 = m\<lparr>states := AList.update transactionId state' (states m)\<rparr>
          in (Inr (), notifyStatusChange (saveStatesToStorage m1) transactionId
                        (currentStatus state) FAILED))"

text \<open>The read accessors.\<close>

definition getTransactionState :: "TransactionManager \<Rightarrow> string \<Rightarrow> TransactionState option" where
  "getTransactionState m transactionId = map_of (states m) transactionId"

definition getCurrentStatus :: "TransactionManager \<Rightarrow> string \<Rightarrow> TransactionStatus option" where
  "getCurrentStatus m transactionId = map_option currentStatus (map_of (states m) transactionId)"

definition getTransactionHistory :: "TransactionManager \<Rightarrow> string \<Rightarrow> StateTransition list" where
  "getTransactionHistory m transactionId =
     (case map_of (states m) transactionId of None \<Rightarrow> [] | Some state \<Rightarrow> transitions state)"

text \<open>\<^verbatim>\<open>canRetry\<close>.\<close>

definition canRetry :: "TransactionManager \<Rightarrow> string \<Rightarrow> bool" where
  "canRetry m transactionId =
     (case map_of (states m) transactionId of
        None \<Rightarrow> False
      | Some state \<Rightarrow>
          currentStatus state \<in> set (retryableStatuses (retryConfig m)) \<and>
          retryCount state < maxRetries state)"

text \<open>Decimal digits of a number, as the template literal prints \<^verbatim>\<open>retryCount\<close>.\<close>

fun show_nat :: "nat \<Rightarrow> string" where
  "show_nat n =
     (if n < 10 then [''0123456789'' ! n]
      else show_nat (n div 10) @ [''0123456789'' ! (n mod 10)])"

declare show_nat.simps [simp del]

text \<open>
  \<^verbatim>\<open>retryTransaction\<close> is an \<^verbatim>\<open>async\<close> method with one \<^verbatim>\<open>await\<close>, the wait for
  the delay. Other calls of the manager can run during that wait, so the method is
  modelled in the two halves in which it runs.

  \<open>retry_begin\<close> is the half before the wait. Its result is \<open>Some r\<close> when the call is over
  with \<open>r\<close> (the throw on a missing state, or false when \<^verbatim>\<open>canRetry\<close> is false), and
  \<open>None\<close> when it waits: then the count has been incremented in memory and the delay,
  computed from the incremented count, is the last entry of \<open>timerLog\<close>.
\<close>

definition retry_begin ::
  "TransactionManager \<Rightarrow> string \<Rightarrow> (js_error + bool) option \<times> TransactionManager" where
  "retry_begin m transactionId =
     (case map_of (states m) transactionId of
        None \<Rightarrow> (Some (Inl (Error (''Transaction state not found: '' @ transactionId))), m)
      | Some state \<Rightarrow>
          if \<not> canRetry m transactionId then (Some (Inr False), m)
          else
            let state' = state\<lparr>retryCount := retryCount state + 1\<rparr>;
                m1 = m\<lparr>states := AList.update transactionId state' (states m)\<rparr>;
                delay = retryDelayMs (retryConfig m) *
                          backoffMultiplier (retryConfig m) ^ (retryCount state' - 1)
            in (None, m1\<lparr>timerLog := timerLog m1 @ [delay]\<rparr>))"

text \<open>
  What runs during the wait, of the four calls that change a transaction's state: a call
  of \<^verbatim>\<open>initializeTransaction\<close>, of \<^verbatim>\<open>transitionTo\<close> or of \<^verbatim>\<open>markAsFailed\<close>, or the
  first half of another call of \<^verbatim>\<open>retryTransaction\<close>. The second half of another
  \<^verbatim>\<open>retryTransaction\<close> is a call of \<^verbatim>\<open>transitionTo\<close> to \<open>PENDING\<close>. The two halves
  themselves, \<open>retry_begin\<close> and \<open>retry_end\<close>, are stated for any manager.
\<close>

datatype event =
  Initialized string TransactionStatus int
  | Transitioned string TransactionStatus "string option" int
  | MarkedAsFailed string string "string option" int
  | RetryBegun string

fun occur :: "TransactionManager \<Rightarrow> event \<Rightarrow> TransactionManager" where
  "occur m (Initialized i s now) = snd (initializeTransaction m i s now)"
| "occur m (Transitioned i s r now) = snd (transitionTo m i s r now)"
| "occur m (MarkedAsFailed i e r now) = snd (markAsFailed m i e r now)"
| "occur m (RetryBegun i) = snd (retry_begin m i)"

text \<open>
  The waiting call holds the state object it found before the wait. That object is the
  entry of the map, mutated in place by the other calls, until
  \<^verbatim>\<open>initializeTransaction\<close> sets a new object under the id; from then on the object held
  is detached and stays as it was at that moment. \<open>during_wait\<close> runs the events on the
  manager and keeps the detached object, \<open>None\<close> while the object held is still the entry.
\<close>

fun detach :: "string \<Rightarrow> TransactionManager \<Rightarrow> event \<Rightarrow> TransactionState option" where
  "detach transactionId m (Initialized i s now) =
     (if i = transactionId then map_of (states m) transactionId else None)"
| "detach transactionId m (Transitioned i s r now) = None"
| "detach transactionId m (MarkedAsFailed i e r now) = None"
| "detach transactionId m (RetryBegun i) = None"

fun during_wait ::
  "string \<Rightarrow> TransactionManager \<Rightarrow> TransactionState option \<Rightarrow> event list
     \<Rightarrow> TransactionManager \<times> TransactionState option" where
  "during_wait transactionId m held [] = (m, held)"
| "during_wait transactionId m held (ev # evs) =
     during_wait transactionId (occur m ev)
       (case held of Some s \<Rightarrow> Some s | None \<Rightarrow> detach transactionId m ev) evs"

text \<open>
  \<open>retry_end\<close> is the half after the wait: \<^verbatim>\<open>transitionTo\<close> to \<open>PENDING\<close> on the manager
  as it is then, with the default reason built from the \<open>retryCount\<close> that the object
  held reads then. \<open>now\<close> is the clock after the wait. When the map has no entry for
  the id, \<^verbatim>\<open>transitionTo\<close> throws whatever the reason.
\<close>

definition retry_end ::
  "TransactionManager \<Rightarrow> string \<Rightarrow> string option \<Rightarrow> TransactionState option \<Rightarrow> int
     \<Rightarrow> (js_error + bool) \<times> TransactionManager" where
  "retry_end m transactionId retryReason held now =
     (case (case held of Some s \<Rightarrow> Some s | None \<Rightarrow> map_of (states m) transactionId) of
        None \<Rightarrow> (Inl (Error (''Transaction state not found: '' @ transactionId)), m)
      | Some state \<Rightarrow>
          transitionTo m transactionId PENDING
            (Some (or_default retryReason (''Retry attempt '' @ show_nat (retryCount state))))
            now)"

text \<open>
  \<^verbatim>\<open>retryTransaction\<close>, with the events \<open>during\<close> that run during its wait, in their
  order; \<open>[]\<close> when nothing else runs. The result is what the promise settles with.
\<close>

definition retryTransaction ::
  "TransactionManager \<Rightarrow> string \<Rightarrow> string option \<Rightarrow> event list \<Rightarrow> int
     \<Rightarrow> (js_error + bool) \<times> TransactionManager" where
  "retryTransaction m transactionId retryReason during now =
     (case retry_begin m transactionId of
        (Some r, m') \<Rightarrow> (r, m')
      | (None, m1) \<Rightarrow>
          (case during_wait transactionId m1 None during of
             (m2, held) \<Rightarrow> retry_end m2 transactionId retryReason held now))"

text \<open>
  \<^verbatim>\<open>cleanupOldTransactions\<close>. The loop walks the entries of the map; the entry it
  is at is the only one it deletes, so the entries it visits are those present at the
  start. Reading the timestamp of the last transition of an empty list throws the
  runtime's \<^verbatim>\<open>TypeError\<close>, with the deletions made so far in place. \<open>now\<close> is
  \<^verbatim>\<open>Date.now()\<close>; the default of \<open>maxAgeMs\<close> is seven days.
\<close>

fun cleanupLoop ::
  "int \<Rightarrow> int \<Rightarrow> (string \<times> TransactionState) list \<Rightarrow> (string \<times> TransactionState) list \<Rightarrow> nat
     \<Rightarrow> (js_error + nat) \<times> (string \<times> TransactionState) list" where
  "cleanupLoop now maxAgeMs [] sts cleanedCount = (Inr cleanedCount, sts)"
| "cleanupLoop now maxAgeMs ((i, state) # entries) sts cleanedCount =
     (if currentStatus state = COMPLETED then
        (if transitions state = [] then (Inl TypeError, sts)
         else if now - timestamp (last (transitions state)) > maxAgeMs
           then cleanupLoop now maxAgeMs entries (AList.delete i sts) (cleanedCount + 1)
           else cleanupLoop now maxAgeMs entries sts cleanedCount)
      else cleanupLoop now maxAgeMs entries sts cleanedCount)"

definition cleanupOldTransactions ::
  "TransactionManager \<Rightarrow> int \<Rightarrow> int \<Rightarrow> (js_error + nat) \<times> TransactionManager" where
  "cleanupOldTransactions m maxAgeMs now =
     (case cleanupLoop now maxAgeMs (states m) (states m) 0 of
        (Inl e, sts) \<Rightarrow> (Inl e, m\<lparr>states := sts\<rparr>)
      | (Inr cleanedCount, sts) \<Rightarrow>
          (Inr cleanedCount,
           if cleanedCount > 0 then saveStatesToStorage (m\<lparr>states := sts\<rparr>)
           else m\<lparr>states := sts\<rparr>))"

section \<open>PaymentService\<close>

text \<open>
  The PaymentService object together with the part of the world it acts on: the
  \<^verbatim>\<open>validateAddress\<close> of the blockchain client it was constructed with, and the item
  stored under its \<^verbatim>\<open>storageKey\<close>, \<open>None\<close> when there is none, else the parsed array.
\<close>

record PaymentService =
  validateAddress :: "string \<Rightarrow> bool"
  localStorage_tx :: "StoredTransaction list option"

text \<open>
  \<^verbatim>\<open>MockBlockchainService.validateAddress\<close>, the default client's: the regular
  expression \<^verbatim>\<open>/^0x[a-fA-F0-9]{40}$/\<close>.
\<close>

definition isHexDigit :: "char \<Rightarrow> bool" where
  "isHexDigit c = (c \<in> set ''0123456789abcdefABCDEF'')"

definition mockValidateAddress :: "string \<Rightarrow> bool" where
  "mockValidateAddress address =
     (take 2 address = ''0x'' \<and> length address = 42 \<and> list_all isHexDigit (drop 2 address))"

text \<open>\<^verbatim>\<open>getStoredTransactions\<close> and \<^verbatim>\<open>getStoredTransaction\<close>.\<close>

definition getStoredTransactions :: "PaymentService \<Rightarrow> StoredTransaction list" where
  "getStoredTransactions ps = (case localStorage_tx ps of None \<Rightarrow> [] | Some ts \<Rightarrow> ts)"

definition getStoredTransaction :: "PaymentService \<Rightarrow> string \<Rightarrow> StoredTransaction option" where
  "getStoredTransaction ps i = find (\<lambda>t. id_st t = i) (getStoredTransactions ps)"






text \<open>
  \<^verbatim>\<open>updateTransactionStatus\<close>: the first record with the id is changed in the parsed
  array, which is then written back; when there is no such record nothing is written.
\<close>

fun update_first :: "('a \<Rightarrow> bool) \<Rightarrow> ('a \<Rightarrow> 'a) \<Rightarrow> 'a list \<Rightarrow> 'a list" where
  "update_first P f [] = []"
| "update_first P f (x # xs) = (if P x then f x # xs else x # update_first P f xs)"

definition updateTransactionStatus ::
  "PaymentService \<Rightarrow> string \<Rightarrow> TransactionStatus \<Rightarrow> int \<Rightarrow> PaymentService" where
  "updateTransactionStatus ps i status now =
     (let transactions = getStoredTransactions ps
      in case find (\<lambda>t. id_st t = i) transactions of
           None \<Rightarrow> ps
         | Some transaction \<Rightarrow>
             ps\<lparr>localStorage_tx :=
                  Some (update_first (\<lambda>t. id_st t = i)
                          (\<lambda>t. t\<lparr>status_st := status, updatedAt := now\<rparr>) transactions)\<rparr>)"



text \<open>\<^verbatim>\<open>cancelPayment\<close>.\<close>

definition cancelPayment ::
  "PaymentService \<Rightarrow> string \<Rightarrow> int \<Rightarrow> (js_error + bool) \<times> PaymentService" where
  "cancelPayment ps i now =
     (case getStoredTransaction ps i of
        None \<Rightarrow> (Inl (Error (''Transaction not found: '' @ i)), ps)
      | Some transaction \<Rightarrow>
          if status_st transaction \<in> set [INITIATED, PENDING, ON_RAMPING]
            then (Inr True, updateTransactionStatus ps i FAILED now)
          else (Inr False, ps))"


section \<open>The transition graph\<close>

text \<open>
  The graph as the specification words it, to compare with the table of the source: the
  successive steps of the pipeline, failure from every status that is not terminal, and
  the retry edge.
\<close>

fun spec_pipeline_next :: "TransactionStatus \<Rightarrow> TransactionStatus option" where
  "spec_pipeline_next INITIATED = Some PENDING"
| "spec_pipeline_next PENDING = Some ON_RAMPING"
| "spec_pipeline_next ON_RAMPING = Some CONVERTING"
| "spec_pipeline_next CONVERTING = Some TRANSFERRING"
| "spec_pipeline_next TRANSFERRING = Some OFF_RAMPING"
| "spec_pipeline_next OFF_RAMPING = Some COMPLETED"
| "spec_pipeline_next COMPLETED = None"
| "spec_pipeline_next FAILED = None"

definition spec_terminal :: "TransactionStatus \<Rightarrow> bool" where
  "spec_terminal s = (s = COMPLETED \<or> s = FAILED)"

definition spec_edge :: "TransactionStatus \<Rightarrow> TransactionStatus \<Rightarrow> bool" where
  "spec_edge from to =
     (spec_pipeline_next from = Some to \<or>
      (to = FAILED \<and> \<not> spec_terminal from) \<or>
      (from = FAILED \<and> to = PENDING))"

section \<open>The invariant of the transition log\<close>

text \<open>Continuity: every transition starts where the one before it ended.\<close>

fun continuous :: "StateTransition list \<Rightarrow> bool" where
  "continuous [] = True"
| "continuous [t] = True"
| "continuous (t # u # ts) = (from_status u = to_status t \<and> continuous (u # ts))"

definition state_ok :: "TransactionState \<Rightarrow> bool" where
  "state_ok s =
     (transitions s \<noteq> [] \<and> to_status (last (transitions s)) = currentStatus s \<and>
      continuous (transitions s))"

definition all_states_ok :: "TransactionManager \<Rightarrow> bool" where
  "all_states_ok m = list_all (\<lambda>(k, s). state_ok s) (states m)"

text \<open>
  The four calls, with their arguments and the clock each of them reads; a call of
  \<^verbatim>\<open>retryTransaction\<close> comes with the events that run during its wait.
\<close>

datatype call =
  InitializeTransaction string TransactionStatus int
  | TransitionTo string TransactionStatus "string option" int
  | MarkAsFailed string string "string option" int
  | RetryTransaction string "string option" "event list" int

fun perform :: "TransactionManager \<Rightarrow> call \<Rightarrow> TransactionManager" where
  "perform m (InitializeTransaction i s now) = snd (initializeTransaction m i s now)"
| "perform m (TransitionTo i s r now) = snd (transitionTo m i s r now)"
| "perform m (MarkAsFailed i e r now) = snd (markAsFailed m i e r now)"
| "perform m (RetryTransaction i r during now) = snd (retryTransaction m i r during now)"

definition run :: "TransactionManager \<Rightarrow> call list \<Rightarrow> TransactionManager" where
  "run m cs = foldl perform m cs"

section \<open>Retention\<close>

text \<open>
  What the specification lets \<^verbatim>\<open>cleanupOldTransactions\<close> remove: a state that is
  \<open>COMPLETED\<close> and whose last transition is older than \<open>maxAgeMs\<close>.
\<close>

definition spec_expired :: "int \<Rightarrow> int \<Rightarrow> TransactionState \<Rightarrow> bool" where
  "spec_expired now maxAgeMs s =
     (currentStatus s = COMPLETED \<and> now - timestamp (last (transitions s)) > maxAgeMs)"

section \<open>Examples\<close>

text \<open>
  Managers and stores that the properties below are tried on: a manager constructed
  on an empty storage with the default configuration, and the same after a transaction
  is initialised, has failed, is pending, or has walked the whole pipeline.
\<close>

definition fresh_manager :: TransactionManager where
  "fresh_manager = newTransactionManager defaultRetryConfig None"

definition initiated_manager :: TransactionManager where
  "initiated_manager = snd (initializeTransaction fresh_manager ''tx-1'' INITIATED 1)"

definition failed_manager :: TransactionManager where
  "failed_manager = snd (markAsFailed initiated_manager ''tx-1'' ''Network error'' None 2)"

definition pending_manager :: TransactionManager where
  "pending_manager = snd (transitionTo initiated_manager ''tx-1'' PENDING None 2)"

definition completed_manager :: TransactionManager where
  "completed_manager =
     run initiated_manager
       [TransitionTo ''tx-1'' PENDING None 2, TransitionTo ''tx-1'' ON_RAMPING None 3,
        TransitionTo ''tx-1'' CONVERTING None 4, TransitionTo ''tx-1'' TRANSFERRING None 5,
        TransitionTo ''tx-1'' OFF_RAMPING None 6, TransitionTo ''tx-1'' COMPLETED None 7]"

text \<open>A fee estimate and a stored record as the tests of the service use them.\<close>

definition example_fees :: FeeEstimate where
  "example_fees =
     \<lparr>onRampFee = 3 / 2, blockchainFee = 2, offRampFee = 2, totalFee = 11 / 2,
      estimatedTime = 10\<rparr>"

definition example_stored :: "TransactionStatus \<Rightarrow> string \<Rightarrow> StoredTransaction" where
  "example_stored status recipient =
     \<lparr>id_st = ''test-tx-1'', createdAt = 1000, updatedAt = 1000, amount_st = 50,
      currency_st = ''EUR'', recipient_st = recipient, recipientENS_st = None,
      status_st = status, fees_st = example_fees, txHash_st = None, fernOnRampId = None,
      fernOffRampId = None, paymentContractId = None\<rparr>"

definition example_service :: "StoredTransaction list \<Rightarrow> PaymentService" where
  "example_service ts = \<lparr>validateAddress = mockValidateAddress, localStorage_tx = Some ts\<rparr>"

definition example_address :: string where
  "example_address = ''0x742d35Cc6634C0532925a3b8D4C9db96C4b4d8b6''"

text \<open>
  A manager with three transactions: one completed at time 7, one failed at time 2 and
  one still in flight.
\<close>

definition mixed_manager :: TransactionManager where
  "mixed_manager =
     run completed_manager
       [InitializeTransaction ''tx-2'' INITIATED 1, MarkAsFailed ''tx-2'' ''Error'' None 2,
        InitializeTransaction ''tx-3'' INITIATED 1, TransitionTo ''tx-3'' PENDING None 2]"

section \<open>Properties of the TransactionManager\<close>

text \<open>The equations that evaluate the examples.\<close>

lemmas example_simps =
  fresh_manager_def initiated_manager_def failed_manager_def pending_manager_def
  completed_manager_def newTransactionManager_def loadStatesFromStorage_def
  defaultRetryConfig_def initializeTransaction_def markAsFailed_def transitionTo_def Let_def
  saveStatesToStorage_def notifyStatusChange_def isValidTransition_def or_default_def run_def


text \<open>
  C1. \<^verbatim>\<open>isValidTransition(from, to)\<close> is true exactly on the edges of the graph of the
  specification: the six successive steps of the pipeline, the edge to \<open>FAILED\<close> from each
  of the six statuses that are not terminal, and \<open>FAILED\<close> to \<open>PENDING\<close>; on every other
  pair (a skipped step, a self-loop, anything out of \<open>COMPLETED\<close>) it is false.
\<close>

theorem isValidTransition_iff_spec_edge:
  "isValidTransition from to = spec_edge from to"
  by (cases "from"; cases to;
      simp add: isValidTransition_def spec_edge_def spec_terminal_def)

lemma continuous_snoc:
  "continuous ts \<Longrightarrow> ts \<noteq> [] \<Longrightarrow> from_status t = to_status (last ts) \<Longrightarrow> continuous (ts @ [t])"
  by (induction ts rule: continuous.induct) auto

lemma list_all_update:
  "P (k, v) \<Longrightarrow> list_all P al \<Longrightarrow> list_all P (AList.update k v al)"
  by (induction al) auto

lemma lookup_state_ok:
  "all_states_ok m \<Longrightarrow> map_of (states m) i = Some s \<Longrightarrow> state_ok s"
  by (auto simp: all_states_ok_def list_all_iff dest: map_of_SomeD)

lemma all_states_ok_update:
  "all_states_ok m \<Longrightarrow> state_ok s \<Longrightarrow> all_states_ok (m\<lparr>states := AList.update i s (states m)\<rparr>)"
  by (simp add: all_states_ok_def list_all_update)

lemma all_states_ok_effects [simp]:
  "all_states_ok (saveStatesToStorage m) = all_states_ok m"
  "all_states_ok (notifyStatusChange m i a b) = all_states_ok m"
  "all_states_ok (m\<lparr>timerLog := ds\<rparr>) = all_states_ok m"
  by (simp_all add: all_states_ok_def saveStatesToStorage_def notifyStatusChange_def)

lemma initializeTransaction_ok:
  "all_states_ok m \<Longrightarrow> all_states_ok (snd (initializeTransaction m i s now))"
  by (simp add: initializeTransaction_def Let_def all_states_ok_update state_ok_def)

lemma transitionTo_ok:
  assumes "all_states_ok m"
  shows "all_states_ok (snd (transitionTo m i s r now))"
proof (cases "map_of (states m) i")
  case None
  then show ?thesis using assms by (simp add: transitionTo_def)
next
  case (Some st)
  then have ok: "state_ok st" using assms lookup_state_ok by blast
  let ?st' = "st\<lparr>previousStatus := Some (currentStatus st), currentStatus := s,
                  transitions := transitions st @
                    [\<lparr>from_status = currentStatus st, to_status = s, timestamp = now,
                      reason = r, error_text = None\<rparr>]\<rparr>"
  have "state_ok ?st'"
    using ok by (simp add: state_ok_def continuous_snoc)
  then have "all_states_ok (m\<lparr>states := AList.update i ?st' (states m)\<rparr>)"
    using assms all_states_ok_update by blast
  then show ?thesis using Some assms by (simp add: transitionTo_def Let_def)
qed

lemma markAsFailed_ok:
  assumes "all_states_ok m"
  shows "all_states_ok (snd (markAsFailed m i e r now))"
proof (cases "map_of (states m) i")
  case None
  then show ?thesis using assms by (simp add: markAsFailed_def)
next
  case (Some st)
  then have ok: "state_ok st" using assms lookup_state_ok by blast
  let ?st' = "st\<lparr>lastError := Some e, previousStatus := Some (currentStatus st),
                  currentStatus := FAILED,
                  transitions := transitions st @
                    [\<lparr>from_status = currentStatus st, to_status = FAILED, timestamp = now,
                      reason = Some (or_default r ''Transaction failed''),
                      error_text = Some e\<rparr>]\<rparr>"
  have "state_ok ?st'"
    using ok by (simp add: state_ok_def continuous_snoc)
  then have "all_states_ok (m\<lparr>states := AList.update i ?st' (states m)\<rparr>)"
    using assms all_states_ok_update by blast
  then show ?thesis using Some by (simp add: markAsFailed_def Let_def)
qed

lemma retry_begin_ok:
  assumes "all_states_ok m"
  shows "all_states_ok (snd (retry_begin m i))"
proof (cases "map_of (states m) i")
  case None
  then show ?thesis using assms by (simp add: retry_begin_def)
next
  case (Some st)
  then have ok: "state_ok st" using assms lookup_state_ok by blast
  have "state_ok (st\<lparr>retryCount := retryCount st + 1\<rparr>)"
    using ok by (simp add: state_ok_def)
  then have "all_states_ok (m\<lparr>states := AList.update i (st\<lparr>retryCount := retryCount st + 1\<rparr>) (states m)\<rparr>)"
    using assms all_states_ok_update by blast
  then show ?thesis
    using Some assms by (simp add: retry_begin_def Let_def)
qed

lemma occur_ok: "all_states_ok m \<Longrightarrow> all_states_ok (occur m ev)"
  by (cases ev)
     (simp_all add: initializeTransaction_ok transitionTo_ok markAsFailed_ok retry_begin_ok)

lemma during_wait_ok:
  "all_states_ok m \<Longrightarrow> all_states_ok (fst (during_wait i m held evs))"
  by (induction evs arbitrary: m held) (simp_all add: occur_ok)

lemma retry_end_ok: "all_states_ok m \<Longrightarrow> all_states_ok (snd (retry_end m i r held now))"
  by (simp add: retry_end_def transitionTo_ok split: option.splits)

lemma retryTransaction_ok:
  assumes "all_states_ok m"
  shows "all_states_ok (snd (retryTransaction m i r during now))"
proof (cases "retry_begin m i")
  case (Pair res m1)
  then have m1: "all_states_ok m1"
    using retry_begin_ok [OF assms, of i] by simp
  show ?thesis
  proof (cases res)
    case (Some a)
    with Pair m1 show ?thesis by (simp add: retryTransaction_def)
  next
    case None
    obtain m2 held where dw: "during_wait i m1 None during = (m2, held)"
      by (cases "during_wait i m1 None during")
    then have "all_states_ok m2"
      using during_wait_ok [OF m1, of i None during] by simp
    then show ?thesis
      using Pair None dw by (simp add: retryTransaction_def retry_end_ok)
  qed
qed

lemma perform_ok: "all_states_ok m \<Longrightarrow> all_states_ok (perform m c)"
  by (cases c)
     (simp_all add: initializeTransaction_ok transitionTo_ok markAsFailed_ok retryTransaction_ok)

lemma run_ok: "all_states_ok m \<Longrightarrow> all_states_ok (run m cs)"
  unfolding run_def by (induction cs arbitrary: m) (simp_all add: perform_ok)

text \<open>
  C2. Start from a manager constructed with nothing in the storage and make any sequence
  of calls of \<^verbatim>\<open>initializeTransaction\<close>, \<^verbatim>\<open>transitionTo\<close>, \<^verbatim>\<open>markAsFailed\<close> and
  \<^verbatim>\<open>retryTransaction\<close>, with any arguments and with any of these calls running during
  the wait of a \<^verbatim>\<open>retryTransaction\<close>. Then every state in the map has a
  non-empty list of transitions, the last of which ends in the current status, and every
  transition starts in the status in which the one before it ended.
\<close>

theorem reachable_states_ok:
  "all_states_ok (run (newTransactionManager cfg None) cs)"
proof -
  have "all_states_ok (newTransactionManager cfg None)"
    by (simp add: newTransactionManager_def loadStatesFromStorage_def all_states_ok_def)
  then show ?thesis by (rule run_ok)
qed

text \<open>
  C3. \<^verbatim>\<open>transitionTo\<close> on an id with no state throws the not-found error. On an id
  with a state, when the transition is not valid, it returns false and the manager is
  the same as before: the same states, the same stored item, no observer called. On a
  state just initialised as \<open>INITIATED\<close>, a transition to \<open>COMPLETED\<close> returns false and
  the status is still \<open>INITIATED\<close>.
\<close>

theorem transitionTo_rejects:
  "(map_of (states m) i = None \<longrightarrow>
      transitionTo m i s r now = (Inl (Error (''Transaction state not found: '' @ i)), m)) \<and>
   (\<forall>st. map_of (states m) i = Some st \<and> \<not> isValidTransition (currentStatus st) s \<longrightarrow>
      transitionTo m i s r now = (Inr False, m)) \<and>
   (let m' = snd (initializeTransaction m i INITIATED t0)
    in transitionTo m' i COMPLETED r now = (Inr False, m') \<and>
       getCurrentStatus m' i = Some INITIATED)"
  by (simp add: transitionTo_def initializeTransaction_def Let_def saveStatesToStorage_def
        getCurrentStatus_def update_conv' isValidTransition_def)

theorem transitionTo_rejects_witness:
  "map_of (states fresh_manager) ''tx-1'' = None \<and>
   transitionTo fresh_manager ''tx-1'' PENDING None 5
     = (Inl (Error ''Transaction state not found: tx-1''), fresh_manager) \<and>
   map_option currentStatus (map_of (states initiated_manager) ''tx-1'') = Some INITIATED \<and>
   isValidTransition INITIATED ON_RAMPING = False \<and>
   transitionTo initiated_manager ''tx-1'' ON_RAMPING None 5 = (Inr False, initiated_manager) \<and>
   transitionTo initiated_manager ''tx-1'' COMPLETED None 5 = (Inr False, initiated_manager) \<and>
   getCurrentStatus initiated_manager ''tx-1'' = Some INITIATED"
proof -
  have none: "map_of (states fresh_manager) ''tx-1'' = None"
    by (simp add: example_simps)
  obtain st where some: "map_of (states initiated_manager) ''tx-1'' = Some st"
    and st: "currentStatus st = INITIATED"
    by (simp add: example_simps)
  have inv: "isValidTransition INITIATED ON_RAMPING = False"
    by (simp add: isValidTransition_def)
  note fresh = transitionTo_rejects
    [where m = fresh_manager and i = "''tx-1''" and s = PENDING and r = None and now = 5
       and ?t0.0 = 1]
  note initiated = transitionTo_rejects
    [where m = initiated_manager and i = "''tx-1''" and s = ON_RAMPING and r = None and now = 5]
  from fresh none
  have a: "transitionTo fresh_manager ''tx-1'' PENDING None 5
     = (Inl (Error ''Transaction state not found: tx-1''), fresh_manager)"
    by simp
  from initiated some st inv
  have b: "transitionTo initiated_manager ''tx-1'' ON_RAMPING None 5 = (Inr False, initiated_manager)"
    by simp
  from fresh
  have c: "transitionTo initiated_manager ''tx-1'' COMPLETED None 5 = (Inr False, initiated_manager)
    \<and> getCurrentStatus initiated_manager ''tx-1'' = Some INITIATED"
    by (simp add: initiated_manager_def Let_def)
  from none a some st inv b c show ?thesis by simp
qed

text \<open>
  C4, as the source has it. \<^verbatim>\<open>retryTransaction\<close> is specified to return false
  whenever \<^verbatim>\<open>canRetry\<close> is false; on an id with no state \<^verbatim>\<open>canRetry\<close> is false
  and \<^verbatim>\<open>retryTransaction\<close> throws the not-found error instead, which rejects its
  promise.
\<close>

theorem retryTransaction_unknown_id_throws:
  "canRetry fresh_manager ''tx-1'' = False \<and>
   retryTransaction fresh_manager ''tx-1'' None [] 5
     = (Inl (Error ''Transaction state not found: tx-1''), fresh_manager)"
  by (simp add: canRetry_def retryTransaction_def retry_begin_def example_simps)

text \<open>
  C4, amended. On an id with no state \<^verbatim>\<open>retryTransaction\<close> throws the not-found error,
  which rejects its promise, and changes nothing. On an id with a state for which \<^verbatim>\<open>canRetry\<close> is false it
  returns false, without a wait and with the manager unchanged. On a state whose status
  is \<open>FAILED\<close>, with \<open>FAILED\<close> in the configured retryable statuses and
  \<open>retryCount < maxRetries\<close>, the call increments the count by exactly one and waits
  \<open>retryDelayMs * backoffMultiplier ^ (retryCount - 1)\<close> for the new count, whatever runs
  during the wait; when no other call of the manager runs during the wait, the status
  then goes from \<open>FAILED\<close> to \<open>PENDING\<close> with that transition appended, and the call
  returns true.
\<close>

theorem retryTransaction_cases:
  "(map_of (states m) i = None \<longrightarrow>
      retryTransaction m i r during now =
        (Inl (Error (''Transaction state not found: '' @ i)), m)) \<and>
   (\<forall>st. map_of (states m) i = Some st \<and> \<not> canRetry m i \<longrightarrow>
      retryTransaction m i r during now = (Inr False, m)) \<and>
   (\<forall>st. map_of (states m) i = Some st \<and> currentStatus st = FAILED \<and>
         FAILED \<in> set (retryableStatuses (retryConfig m)) \<and> retryCount st < maxRetries st \<longrightarrow>
      retry_begin m i =
        (None,
         m\<lparr>states := AList.update i (st\<lparr>retryCount := retryCount st + 1\<rparr>) (states m),
           timerLog := timerLog m @
             [retryDelayMs (retryConfig m) *
                backoffMultiplier (retryConfig m) ^ (retryCount st + 1 - 1)]\<rparr>) \<and>
      fst (retryTransaction m i r [] now) = Inr True \<and>
      map_of (states (snd (retryTransaction m i r [] now))) i =
        Some (st\<lparr>retryCount := retryCount st + 1,
                 previousStatus := Some FAILED,
                 currentStatus := PENDING,
                 transitions := transitions st @
                   [\<lparr>from_status = FAILED, to_status = PENDING, timestamp = now,
                     reason = Some (or_default r
                       (''Retry attempt '' @ show_nat (retryCount st + 1))),
                     error_text = None\<rparr>]\<rparr>) \<and>
      timerLog (snd (retryTransaction m i r [] now)) =
        timerLog m @ [retryDelayMs (retryConfig m) *
                        backoffMultiplier (retryConfig m) ^ (retryCount st + 1 - 1)])"
proof (intro conjI allI impI)
  assume "map_of (states m) i = None"
  then show "retryTransaction m i r during now =
      (Inl (Error (''Transaction state not found: '' @ i)), m)"
    by (simp add: retryTransaction_def retry_begin_def)
next
  fix st
  assume "map_of (states m) i = Some st \<and> \<not> canRetry m i"
  then show "retryTransaction m i r during now = (Inr False, m)"
    by (simp add: retryTransaction_def retry_begin_def)
next
  fix st
  assume h: "map_of (states m) i = Some st \<and> currentStatus st = FAILED \<and>
    FAILED \<in> set (retryableStatuses (retryConfig m)) \<and> retryCount st < maxRetries st"
  then have can: "canRetry m i" by (simp add: canRetry_def)
  from h can show "retry_begin m i =
        (None,
         m\<lparr>states := AList.update i (st\<lparr>retryCount := retryCount st + 1\<rparr>) (states m),
           timerLog := timerLog m @
             [retryDelayMs (retryConfig m) *
                backoffMultiplier (retryConfig m) ^ (retryCount st + 1 - 1)]\<rparr>)"
    by (simp add: retry_begin_def Let_def)
  from h can show "fst (retryTransaction m i r [] now) = Inr True"
    by (simp add: retryTransaction_def retry_begin_def retry_end_def transitionTo_def Let_def
          update_conv' isValidTransition_def)
  from h can show "map_of (states (snd (retryTransaction m i r [] now))) i =
        Some (st\<lparr>retryCount := retryCount st + 1,
                 previousStatus := Some FAILED,
                 currentStatus := PENDING,
                 transitions := transitions st @
                   [\<lparr>from_status = FAILED, to_status = PENDING, timestamp = now,
                     reason = Some (or_default r
                       (''Retry attempt '' @ show_nat (retryCount st + 1))),
                     error_text = None\<rparr>]\<rparr>)"
    by (simp add: retryTransaction_def retry_begin_def retry_end_def transitionTo_def Let_def
          update_conv' isValidTransition_def saveStatesToStorage_def notifyStatusChange_def)
  from h can show "timerLog (snd (retryTransaction m i r [] now)) =
        timerLog m @ [retryDelayMs (retryConfig m) *
                        backoffMultiplier (retryConfig m) ^ (retryCount st + 1 - 1)]"
    by (simp add: retryTransaction_def retry_begin_def retry_end_def transitionTo_def Let_def
          update_conv' isValidTransition_def saveStatesToStorage_def notifyStatusChange_def)
qed

theorem retryTransaction_cases_witness:
  "map_of (states fresh_manager) ''tx-1'' = None \<and>
   retryTransaction fresh_manager ''tx-1'' None [] 9
     = (Inl (Error ''Transaction state not found: tx-1''), fresh_manager) \<and>
   canRetry initiated_manager ''tx-1'' = False \<and>
   retryTransaction initiated_manager ''tx-1'' None [] 9 = (Inr False, initiated_manager) \<and>
   map_option currentStatus (map_of (states failed_manager) ''tx-1'') = Some FAILED \<and>
   fst (retryTransaction failed_manager ''tx-1'' None [] 9) = Inr True \<and>
   map_option retryCount
     (map_of (states (snd (retryTransaction failed_manager ''tx-1'' None [] 9))) ''tx-1'')
     = Some 1 \<and>
   map_option currentStatus
     (map_of (states (snd (retryTransaction failed_manager ''tx-1'' None [] 9))) ''tx-1'')
     = Some PENDING \<and>
   timerLog (snd (retryTransaction failed_manager ''tx-1'' None [] 9)) = [5000]"
proof -
  have none: "map_of (states fresh_manager) ''tx-1'' = None"
    by (simp add: example_simps)
  obtain st where some: "map_of (states initiated_manager) ''tx-1'' = Some st"
    by (simp add: example_simps)
  have cannot: "canRetry initiated_manager ''tx-1'' = False"
    by (simp add: canRetry_def example_simps)
  obtain sf where failed: "map_of (states failed_manager) ''tx-1'' = Some sf"
    and sf: "currentStatus sf = FAILED" "retryCount sf = 0" "maxRetries sf = 3"
    by (simp add: example_simps)
  have cfg: "retryConfig failed_manager = defaultRetryConfig" "timerLog failed_manager = []"
    by (simp_all add: example_simps)
  from retryTransaction_cases
    [where m = fresh_manager and i = "''tx-1''" and r = None and during = "[]" and now = 9] none
  have a: "retryTransaction fresh_manager ''tx-1'' None [] 9
     = (Inl (Error ''Transaction state not found: tx-1''), fresh_manager)"
    by simp
  from retryTransaction_cases
    [where m = initiated_manager and i = "''tx-1''" and r = None and during = "[]" and now = 9]
    some cannot
  have b: "retryTransaction initiated_manager ''tx-1'' None [] 9 = (Inr False, initiated_manager)"
    by simp
  from retryTransaction_cases
    [where m = failed_manager and i = "''tx-1''" and r = None and during = "[]" and now = 9]
    failed sf cfg
  have c: "fst (retryTransaction failed_manager ''tx-1'' None [] 9) = Inr True \<and>
    map_option retryCount
      (map_of (states (snd (retryTransaction failed_manager ''tx-1'' None [] 9))) ''tx-1'')
      = Some 1 \<and>
    map_option currentStatus
      (map_of (states (snd (retryTransaction failed_manager ''tx-1'' None [] 9))) ''tx-1'')
      = Some PENDING \<and>
    timerLog (snd (retryTransaction failed_manager ''tx-1'' None [] 9)) = [5000]"
    by (simp add: defaultRetryConfig_def)
  from none a cannot b failed sf c show ?thesis by simp
qed

text \<open>
  Two calls of \<^verbatim>\<open>retryTransaction\<close> on a failed transaction, the second beginning
  during the wait of the first, when the status is \<open>FAILED\<close> and the count is 1 of 3.
  Both increment the count. The first to end makes the transition, with the reason
  reading the count as it is then, 2; the second, ending after it, finds the status
  \<open>PENDING\<close> and returns false.
\<close>

lemma retryTransaction_overlap_example:
  "map_option (\<lambda>s. (currentStatus s, retryCount s, maxRetries s))
     (map_of (states (snd (retry_begin failed_manager ''tx-1''))) ''tx-1'')
     = Some (FAILED, 1, 3) \<and>
   fst (retryTransaction failed_manager ''tx-1'' None [RetryBegun ''tx-1''] 9) = Inr True \<and>
   map_option (\<lambda>s. (retryCount s, reason (last (transitions s))))
     (map_of (states (snd (retryTransaction failed_manager ''tx-1'' None [RetryBegun ''tx-1''] 9)))
        ''tx-1'')
     = Some (2, Some ''Retry attempt 2'') \<and>
   fst (retryTransaction (snd (retry_begin failed_manager ''tx-1'')) ''tx-1'' None
          [Transitioned ''tx-1'' PENDING (Some ''Retry attempt 2'') 9] 10) = Inr False"
  by (simp add: retryTransaction_def retry_begin_def retry_end_def canRetry_def update_conv'
        show_nat.simps example_simps)

text \<open>
  C9. \<^verbatim>\<open>markAsFailed\<close> looks at no transition table and at no terminal status: on
  every stored state, whatever its status, also \<open>COMPLETED\<close> or \<open>FAILED\<close>, it returns
  normally, and afterwards the status is \<open>FAILED\<close>, \<open>lastError\<close> is the given error, the
  previous status is the old one, and one transition from the old status to \<open>FAILED\<close>
  is appended.
\<close>

theorem markAsFailed_no_terminal_guard:
  "map_of (states m) i = Some st \<Longrightarrow>
   fst (markAsFailed m i e r now) = Inr () \<and>
   map_of (states (snd (markAsFailed m i e r now))) i =
     Some (st\<lparr>lastError := Some e,
              previousStatus := Some (currentStatus st),
              currentStatus := FAILED,
              transitions := transitions st @
                [\<lparr>from_status = currentStatus st, to_status = FAILED, timestamp = now,
                  reason = Some (or_default r ''Transaction failed''),
                  error_text = Some e\<rparr>]\<rparr>)"
  by (simp add: markAsFailed_def Let_def update_conv' saveStatesToStorage_def
        notifyStatusChange_def)

theorem markAsFailed_no_terminal_guard_witness:
  "map_option currentStatus (map_of (states completed_manager) ''tx-1'') = Some COMPLETED \<and>
   fst (markAsFailed completed_manager ''tx-1'' ''late error'' None 8) = Inr () \<and>
   map_option currentStatus
     (map_of (states (snd (markAsFailed completed_manager ''tx-1'' ''late error'' None 8))) ''tx-1'')
     = Some FAILED \<and>
   map_option lastError
     (map_of (states (snd (markAsFailed completed_manager ''tx-1'' ''late error'' None 8))) ''tx-1'')
     = Some (Some ''late error'') \<and>
   map_option (\<lambda>s. (from_status (last (transitions s)), to_status (last (transitions s))))
     (map_of (states (snd (markAsFailed completed_manager ''tx-1'' ''late error'' None 8))) ''tx-1'')
     = Some (COMPLETED, FAILED) \<and>
   map_option (\<lambda>s. (from_status (last (transitions s)), to_status (last (transitions s))))
     (map_of (states (snd (markAsFailed failed_manager ''tx-1'' ''again'' None 8))) ''tx-1'')
     = Some (FAILED, FAILED)"
proof -
  obtain sc where completed: "map_of (states completed_manager) ''tx-1'' = Some sc"
    and sc: "currentStatus sc = COMPLETED"
    by (simp add: example_simps)
  obtain sf where failed: "map_of (states failed_manager) ''tx-1'' = Some sf"
    and sf: "currentStatus sf = FAILED"
    by (simp add: example_simps)
  from markAsFailed_no_terminal_guard
    [OF completed, where e = "''late error''" and r = None and now = 8] sc
  have a: "fst (markAsFailed completed_manager ''tx-1'' ''late error'' None 8) = Inr () \<and>
    map_option currentStatus
      (map_of (states (snd (markAsFailed completed_manager ''tx-1'' ''late error'' None 8))) ''tx-1'')
      = Some FAILED \<and>
    map_option lastError
      (map_of (states (snd (markAsFailed completed_manager ''tx-1'' ''late error'' None 8))) ''tx-1'')
      = Some (Some ''late error'') \<and>
    map_option (\<lambda>s. (from_status (last (transitions s)), to_status (last (transitions s))))
      (map_of (states (snd (markAsFailed completed_manager ''tx-1'' ''late error'' None 8))) ''tx-1'')
      = Some (COMPLETED, FAILED)"
    by simp
  from markAsFailed_no_terminal_guard
    [OF failed, where e = "''again''" and r = None and now = 8] sf
  have b: "map_option (\<lambda>s. (from_status (last (transitions s)), to_status (last (transitions s))))
      (map_of (states (snd (markAsFailed failed_manager ''tx-1'' ''again'' None 8))) ''tx-1'')
      = Some (FAILED, FAILED)"
    by simp
  from completed sc a b show ?thesis by simp
qed

text \<open>
  C10, as the source has it. The count is incremented before the wait and the
  transition to \<open>PENDING\<close> is tried after it, on the status found then. When
  \<^verbatim>\<open>markAsFailed\<close> runs during the wait of a retry of a pending transaction, the retry
  finds the status \<open>FAILED\<close>: it makes the transition to \<open>PENDING\<close>, appends it and
  returns true.
\<close>

theorem retryTransaction_pending_interrupted:
  "map_option currentStatus (map_of (states pending_manager) ''tx-1'') = Some PENDING \<and>
   map_option (\<lambda>s. (retryCount s, maxRetries s)) (map_of (states pending_manager) ''tx-1'')
     = Some (0, 3) \<and>
   canRetry pending_manager ''tx-1'' = True \<and>
   fst (retryTransaction pending_manager ''tx-1'' None
          [MarkedAsFailed ''tx-1'' ''Network error'' None 5] 9) = Inr True \<and>
   map_option (\<lambda>s. (currentStatus s, map (\<lambda>t. (from_status t, to_status t)) (transitions s)))
     (map_of (states (snd (retryTransaction pending_manager ''tx-1'' None
                             [MarkedAsFailed ''tx-1'' ''Network error'' None 5] 9))) ''tx-1'')
     = Some (PENDING,
             [(INITIATED, INITIATED), (INITIATED, PENDING), (PENDING, FAILED), (FAILED, PENDING)])"
  by (simp add: retryTransaction_def retry_begin_def retry_end_def canRetry_def update_conv'
        show_nat.simps example_simps)

text \<open>
  C10, amended. On a state whose status is \<open>PENDING\<close>, with \<open>PENDING\<close> in the configured
  retryable statuses (it is in the default ones) and \<open>retryCount < maxRetries\<close>,
  \<^verbatim>\<open>canRetry\<close> is true and \<^verbatim>\<open>retryTransaction\<close> increments the count by one and waits,
  whatever runs during the wait. When no other call of the manager runs during the
  wait, it then returns false: the stored state differs from the old one in
  \<open>retryCount\<close> only, so the status is still \<open>PENDING\<close> and no transition is appended;
  nothing is saved and no observer is called.
\<close>

theorem retryTransaction_pending_consumes_attempt:
  "map_of (states m) i = Some st \<Longrightarrow> currentStatus st = PENDING \<Longrightarrow>
   PENDING \<in> set (retryableStatuses (retryConfig m)) \<Longrightarrow> retryCount st < maxRetries st \<Longrightarrow>
   canRetry m i \<and>
   retry_begin m i =
     (None,
      m\<lparr>states := AList.update i (st\<lparr>retryCount := retryCount st + 1\<rparr>) (states m),
        timerLog := timerLog m @
          [retryDelayMs (retryConfig m) * backoffMultiplier (retryConfig m) ^ retryCount st]\<rparr>) \<and>
   retryTransaction m i r [] now =
     (Inr False,
      m\<lparr>states := AList.update i (st\<lparr>retryCount := retryCount st + 1\<rparr>) (states m),
        timerLog := timerLog m @
          [retryDelayMs (retryConfig m) * backoffMultiplier (retryConfig m) ^ retryCount st]\<rparr>) \<and>
   map_of (states (snd (retryTransaction m i r [] now))) i =
     Some (st\<lparr>retryCount := retryCount st + 1\<rparr>)"
  by (simp add: retryTransaction_def retry_begin_def retry_end_def canRetry_def transitionTo_def
        Let_def update_conv' isValidTransition_def)

theorem retryTransaction_pending_consumes_attempt_witness:
  "map_option currentStatus (map_of (states pending_manager) ''tx-1'') = Some PENDING \<and>
   map_option retryCount (map_of (states pending_manager) ''tx-1'') = Some 0 \<and>
   canRetry pending_manager ''tx-1'' \<and>
   fst (retryTransaction pending_manager ''tx-1'' None [] 9) = Inr False \<and>
   map_option currentStatus
     (map_of (states (snd (retryTransaction pending_manager ''tx-1'' None [] 9))) ''tx-1'')
     = Some PENDING \<and>
   map_option retryCount
     (map_of (states (snd (retryTransaction pending_manager ''tx-1'' None [] 9))) ''tx-1'')
     = Some 1 \<and>
   map_option transitions
     (map_of (states (snd (retryTransaction pending_manager ''tx-1'' None [] 9))) ''tx-1'')
     = map_option transitions (map_of (states pending_manager) ''tx-1'')"
proof -
  obtain sp where pending: "map_of (states pending_manager) ''tx-1'' = Some sp"
    and sp: "currentStatus sp = PENDING" "retryCount sp = 0" "maxRetries sp = 3"
    by (simp add: example_simps)
  have cfg: "PENDING \<in> set (retryableStatuses (retryConfig pending_manager))"
    by (simp add: example_simps)
  have lt: "retryCount sp < maxRetries sp" using sp by simp
  from retryTransaction_pending_consumes_attempt
    [OF pending sp(1) cfg lt, where r = None and now = 9] pending sp
  show ?thesis by (simp add: update_conv')
qed

text \<open>
  Every manager reached by the four calls from an empty storage has each key once and
  no state without a transition.
\<close>

lemma retry_begin_distinct:
  "distinct (map fst (states m)) \<Longrightarrow> distinct (map fst (states (snd (retry_begin m i))))"
  by (auto simp: retry_begin_def Let_def distinct_update split: option.splits)

lemma transitionTo_distinct:
  "distinct (map fst (states m)) \<Longrightarrow> distinct (map fst (states (snd (transitionTo m i s r now))))"
  by (auto simp: transitionTo_def saveStatesToStorage_def notifyStatusChange_def Let_def
        distinct_update split: option.splits)

lemma occur_distinct:
  "distinct (map fst (states m)) \<Longrightarrow> distinct (map fst (states (occur m ev)))"
  by (cases ev)
     (auto simp: initializeTransaction_def markAsFailed_def transitionTo_distinct
        retry_begin_distinct saveStatesToStorage_def notifyStatusChange_def Let_def
        distinct_update split: option.splits)

lemma during_wait_distinct:
  "distinct (map fst (states m)) \<Longrightarrow>
   distinct (map fst (states (fst (during_wait i m held evs))))"
  by (induction evs arbitrary: m held) (simp_all add: occur_distinct)

lemma retryTransaction_distinct:
  assumes "distinct (map fst (states m))"
  shows "distinct (map fst (states (snd (retryTransaction m i r during now))))"
proof (cases "retry_begin m i")
  case (Pair res m1)
  then have m1: "distinct (map fst (states m1))"
    using retry_begin_distinct [OF assms, of i] by simp
  show ?thesis
  proof (cases res)
    case (Some a)
    with Pair m1 show ?thesis by (simp add: retryTransaction_def)
  next
    case None
    obtain m2 held where dw: "during_wait i m1 None during = (m2, held)"
      by (cases "during_wait i m1 None during")
    then have "distinct (map fst (states m2))"
      using during_wait_distinct [OF m1, of i None during] by simp
    then show ?thesis
      using Pair None dw
      by (simp add: retryTransaction_def retry_end_def transitionTo_distinct split: option.splits)
  qed
qed

lemma perform_distinct:
  "distinct (map fst (states m)) \<Longrightarrow> distinct (map fst (states (perform m c)))"
  by (cases c)
     (auto simp: initializeTransaction_def markAsFailed_def transitionTo_distinct
        retryTransaction_distinct saveStatesToStorage_def notifyStatusChange_def Let_def
        distinct_update split: option.splits)

lemma run_distinct:
  "distinct (map fst (states m)) \<Longrightarrow> distinct (map fst (states (run m cs)))"
  unfolding run_def by (induction cs arbitrary: m) (simp_all add: perform_distinct)

lemma reachable_well_formed:
  "distinct (map fst (states (run (newTransactionManager cfg None) cs)))"
  "list_all (\<lambda>(i, s). transitions s \<noteq> []) (states (run (newTransactionManager cfg None) cs))"
proof -
  show "distinct (map fst (states (run (newTransactionManager cfg None) cs)))"
    by (rule run_distinct) (simp add: newTransactionManager_def loadStatesFromStorage_def)
  have "all_states_ok (run (newTransactionManager cfg None) cs)"
    by (rule run_ok) (simp add: newTransactionManager_def loadStatesFromStorage_def all_states_ok_def)
  then show "list_all (\<lambda>(i, s). transitions s \<noteq> []) (states (run (newTransactionManager cfg None) cs))"
    by (auto simp: all_states_ok_def state_ok_def list_all_iff)
qed

lemma cleanupLoop_result:
  "list_all (\<lambda>(i, s). transitions s \<noteq> []) entries \<Longrightarrow>
   cleanupLoop now mx entries sts n =
     (Inr (n + length (filter (\<lambda>(i, s). spec_expired now mx s) entries)),
      filter (\<lambda>(k, v). k \<notin> fst ` set (filter (\<lambda>(i, s). spec_expired now mx s) entries)) sts)"
proof (induction entries arbitrary: sts n)
  case Nil
  then show ?case by simp
next
  case (Cons e entries)
  obtain i s where e: "e = (i, s)" by (cases e)
  from Cons.prems e have ne: "transitions s \<noteq> []"
    and rest: "list_all (\<lambda>(i, s). transitions s \<noteq> []) entries" by simp_all
  show ?case
  proof (cases "spec_expired now mx s")
    case True
    then have "cleanupLoop now mx (e # entries) sts n =
        cleanupLoop now mx entries (AList.delete i sts) (n + 1)"
      using e ne by (simp add: spec_expired_def)
    also have "\<dots> =
        (Inr (n + 1 + length (filter (\<lambda>(i, s). spec_expired now mx s) entries)),
         filter (\<lambda>(k, v). k \<notin> fst ` set (filter (\<lambda>(i, s). spec_expired now mx s) entries))
           (AList.delete i sts))"
      by (rule Cons.IH [OF rest])
    also have "\<dots> =
        (Inr (n + length (filter (\<lambda>(i, s). spec_expired now mx s) (e # entries))),
         filter (\<lambda>(k, v). k \<notin> fst ` set (filter (\<lambda>(i, s). spec_expired now mx s) (e # entries)))
           sts)"
      using True e by (auto simp: AList.delete_eq intro: filter_cong)
    finally show ?thesis .
  next
    case False
    then have "cleanupLoop now mx (e # entries) sts n = cleanupLoop now mx entries sts n"
      using e ne by (auto simp add: spec_expired_def)
    then show ?thesis using False e Cons.IH [OF rest] by simp
  qed
qed

lemma filter_keys_distinct:
  assumes "distinct (map fst al)"
  shows "filter (\<lambda>(k, v). k \<notin> fst ` set (filter E al)) al = filter (\<lambda>e. \<not> E e) al"
proof (rule filter_cong [OF refl])
  fix e assume mem: "e \<in> set al"
  obtain k v where e: "e = (k, v)" by (cases e)
  have "k \<in> fst ` set (filter E al) \<longleftrightarrow> E (k, v)"
  proof
    assume "k \<in> fst ` set (filter E al)"
    then obtain v' where "(k, v') \<in> set al" "E (k, v')" by auto
    moreover from this mem e assms have "v' = v" by (metis eq_key_imp_eq_value)
    ultimately show "E (k, v)" by simp
  next
    assume "E (k, v)"
    with mem e show "k \<in> fst ` set (filter E al)" by force
  qed
  then show "(case e of (k, v) \<Rightarrow> k \<notin> fst ` set (filter E al)) = (\<not> E e)"
    using e by simp
qed

text \<open>
  C8. On a manager whose map has each key once and whose states each have a transition
  (as every reachable one has), \<^verbatim>\<open>cleanupOldTransactions(maxAgeMs)\<close> returns
  normally; the states left are exactly those that are not both \<open>COMPLETED\<close> and with a
  last transition older than \<open>maxAgeMs\<close>, in their old order, and the number returned is
  the number of states removed. So a state whose status is not \<open>COMPLETED\<close> (\<open>FAILED\<close>,
  \<open>PENDING\<close>, \<open>ON_RAMPING\<close>, \<open>CONVERTING\<close>, \<open>TRANSFERRING\<close>, \<open>OFF_RAMPING\<close>, also
  \<open>INITIATED\<close>) is still there afterwards, whatever its age.
\<close>

theorem cleanup_removes_exactly_expired:
  assumes "distinct (map fst (states m))"
      and "list_all (\<lambda>(i, s). transitions s \<noteq> []) (states m)"
  shows "fst (cleanupOldTransactions m maxAgeMs now) =
           Inr (length (filter (\<lambda>(i, s). spec_expired now maxAgeMs s) (states m))) \<and>
         states (snd (cleanupOldTransactions m maxAgeMs now)) =
           filter (\<lambda>(i, s). \<not> spec_expired now maxAgeMs s) (states m) \<and>
         (\<forall>i s. map_of (states m) i = Some s \<and> currentStatus s \<noteq> COMPLETED \<longrightarrow>
            map_of (states (snd (cleanupOldTransactions m maxAgeMs now))) i = Some s)"
proof -
  have "cleanupLoop now maxAgeMs (states m) (states m) 0 =
     (Inr (length (filter (\<lambda>(i, s). spec_expired now maxAgeMs s) (states m))),
      filter (\<lambda>e. \<not> (\<lambda>(i, s). spec_expired now maxAgeMs s) e) (states m))"
    using cleanupLoop_result [OF assms(2), of now maxAgeMs "states m" 0]
      filter_keys_distinct [OF assms(1), of "\<lambda>(i, s). spec_expired now maxAgeMs s"]
    by simp
  moreover have "filter (\<lambda>e. \<not> (\<lambda>(i, s). spec_expired now maxAgeMs s) e) (states m) =
      filter (\<lambda>(i, s). \<not> spec_expired now maxAgeMs s) (states m)"
    by (rule filter_cong) auto
  ultimately have res:
    "fst (cleanupOldTransactions m maxAgeMs now) =
       Inr (length (filter (\<lambda>(i, s). spec_expired now maxAgeMs s) (states m)))"
    "states (snd (cleanupOldTransactions m maxAgeMs now)) =
       filter (\<lambda>(i, s). \<not> spec_expired now maxAgeMs s) (states m)"
    by (simp_all add: cleanupOldTransactions_def saveStatesToStorage_def)
  have "map_of (states (snd (cleanupOldTransactions m maxAgeMs now))) i = Some s"
    if "map_of (states m) i = Some s" "currentStatus s \<noteq> COMPLETED" for i s
    using that res(2) map_of_filter_in [of "states m" i s "\<lambda>i s. \<not> spec_expired now maxAgeMs s"]
    by (simp add: spec_expired_def)
  with res show ?thesis by blast
qed

theorem cleanup_removes_exactly_expired_witness:
  "distinct (map fst (states mixed_manager)) \<and>
   list_all (\<lambda>(i, s). transitions s \<noteq> []) (states mixed_manager) \<and>
   map (\<lambda>(i, s). (i, currentStatus s, timestamp (last (transitions s)))) (states mixed_manager) =
     [(''tx-1'', COMPLETED, 7), (''tx-2'', FAILED, 2), (''tx-3'', PENDING, 2)] \<and>
   fst (cleanupOldTransactions mixed_manager 100 108) = Inr 1 \<and>
   map (\<lambda>(i, s). (i, currentStatus s)) (states (snd (cleanupOldTransactions mixed_manager 100 108))) =
     [(''tx-2'', FAILED), (''tx-3'', PENDING)] \<and>
   fst (cleanupOldTransactions mixed_manager 100 107) = Inr 0 \<and>
   states (snd (cleanupOldTransactions mixed_manager 100 107)) = states mixed_manager"
proof -
  obtain s1 s2 s3 where sts: "states mixed_manager = [(''tx-1'', s1), (''tx-2'', s2), (''tx-3'', s3)]"
    and s1: "currentStatus s1 = COMPLETED" "transitions s1 \<noteq> []" "timestamp (last (transitions s1)) = 7"
    and s2: "currentStatus s2 = FAILED" "transitions s2 \<noteq> []" "timestamp (last (transitions s2)) = 2"
    and s3: "currentStatus s3 = PENDING" "transitions s3 \<noteq> []" "timestamp (last (transitions s3)) = 2"
    by (simp add: mixed_manager_def example_simps)
  have d: "distinct (map fst (states mixed_manager))" by (simp add: sts)
  have l: "list_all (\<lambda>(i, s). transitions s \<noteq> []) (states mixed_manager)"
    by (simp add: sts s1 s2 s3)
  from cleanup_removes_exactly_expired [OF d l, of 100 108]
       cleanup_removes_exactly_expired [OF d l, of 100 107] d l
  show ?thesis by (simp add: sts s1 s2 s3 spec_expired_def)
qed

section \<open>Properties of the PaymentService\<close>

lemma find_update_first:
  "find P xs = Some x \<Longrightarrow> P (f x) \<Longrightarrow> find P (update_first P f xs) = Some (f x)"
  by (induction xs) (auto split: if_splits)

text \<open>
  C5. For a stored transaction, \<^verbatim>\<open>cancelPayment(id)\<close> returns true exactly when the
  status is \<open>INITIATED\<close>, \<open>PENDING\<close> or \<open>ON_RAMPING\<close>, and then the stored status is
  \<open>FAILED\<close> afterwards; for every other status it returns false and the store is the same
  as before.
\<close>

theorem cancelPayment_iff_early:
  "getStoredTransaction ps i = Some t \<Longrightarrow>
   (fst (cancelPayment ps i now) = Inr True) = (status_st t \<in> {INITIATED, PENDING, ON_RAMPING}) \<and>
   (status_st t \<in> {INITIATED, PENDING, ON_RAMPING} \<longrightarrow>
      fst (cancelPayment ps i now) = Inr True \<and>
      getStoredTransaction (snd (cancelPayment ps i now)) i =
        Some (t\<lparr>status_st := FAILED, updatedAt := now\<rparr>)) \<and>
   (status_st t \<notin> {INITIATED, PENDING, ON_RAMPING} \<longrightarrow>
      cancelPayment ps i now = (Inr False, ps))"
proof -
  assume t: "getStoredTransaction ps i = Some t"
  then have f: "find (\<lambda>t. id_st t = i) (getStoredTransactions ps) = Some t"
    by (simp add: getStoredTransaction_def)
  then have idt: "id_st t = i"
    by (auto simp: find_Some_iff)
  have upd: "getStoredTransaction (updateTransactionStatus ps i FAILED now) i =
      Some (t\<lparr>status_st := FAILED, updatedAt := now\<rparr>)"
    using f idt
    by (simp add: updateTransactionStatus_def getStoredTransaction_def getStoredTransactions_def
          find_update_first)
  show ?thesis
    using t upd by (simp add: cancelPayment_def)
qed

text \<open>The equations that evaluate the example stores.\<close>

lemmas service_simps =
  example_service_def example_stored_def example_address_def example_fees_def
  getStoredTransaction_def getStoredTransactions_def mockValidateAddress_def isHexDigit_def

theorem cancelPayment_iff_early_witness:
  "getStoredTransaction (example_service [example_stored PENDING example_address]) ''test-tx-1''
     = Some (example_stored PENDING example_address) \<and>
   fst (cancelPayment (example_service [example_stored PENDING example_address]) ''test-tx-1'' 2000)
     = Inr True \<and>
   map_option status_st
     (getStoredTransaction
        (snd (cancelPayment (example_service [example_stored PENDING example_address]) ''test-tx-1'' 2000))
        ''test-tx-1'')
     = Some FAILED \<and>
   getStoredTransaction (example_service [example_stored TRANSFERRING example_address]) ''test-tx-1''
     = Some (example_stored TRANSFERRING example_address) \<and>
   cancelPayment (example_service [example_stored TRANSFERRING example_address]) ''test-tx-1'' 2000
     = (Inr False, example_service [example_stored TRANSFERRING example_address])"
proof -
  have p: "getStoredTransaction (example_service [example_stored PENDING example_address]) ''test-tx-1''
     = Some (example_stored PENDING example_address)"
    by (simp add: service_simps)
  have sp: "status_st (example_stored PENDING example_address) = PENDING"
    by (simp add: example_stored_def)
  have t: "getStoredTransaction (example_service [example_stored TRANSFERRING example_address]) ''test-tx-1''
     = Some (example_stored TRANSFERRING example_address)"
    by (simp add: service_simps)
  have st: "status_st (example_stored TRANSFERRING example_address) = TRANSFERRING"
    by (simp add: example_stored_def)
  from cancelPayment_iff_early [OF p, of 2000] cancelPayment_iff_early [OF t, of 2000] p sp t st
  show ?thesis by simp
qed














end
